theory Spec2Isabelle
  imports Complex_Main "HOL-Library.Sublist"
begin

section \<open>Python values and exceptions\<close>

text \<open>
  The Python exceptions that the modelled code can raise.  A function that can raise
  returns \<open>error + 'a\<close>, with \<open>Inl\<close> for the exception.  Python floats are modelled
  as reals (rounding is abstracted away); a float that is \<open>nan\<close> or infinite is made
  explicit as \<open>None\<close> where the code can produce one.
\<close>

datatype error =
    KeyError string
  | ValueError string
  | TypeError
  | AttributeError

definition bind :: "error + 'a \<Rightarrow> ('a \<Rightarrow> error + 'b) \<Rightarrow> error + 'b" where
  "bind m f = (case m of Inl e \<Rightarrow> Inl e | Inr v \<Rightarrow> f v)"

text \<open>
  The raw health data and the three reports handed to the aggregator are Python values
  as \<open>json.load\<close> builds them; nothing is known about their shape, so they are values
  of a JSON type.  A dict is an association list in which the first binding of a key is
  the dict's entry.
\<close>

datatype json =
    JNull
  | JBool bool
  | JNum real
  | JStr string
  | JList "json list"
  | JDict "(string \<times> json) list"

text \<open>\<open>key in v\<close>: key membership for a dict, substring test for a string, element
  test for a list, TypeError for the other values.\<close>

fun py_in :: "string \<Rightarrow> json \<Rightarrow> error + bool" where
  "py_in k (JDict kvs) = Inr (map_of kvs k \<noteq> None)"
| "py_in k (JStr str) = Inr (sublist k str)"
| "py_in k (JList vs) = Inr (JStr k \<in> set vs)"
| "py_in k v = Inl TypeError"

text \<open>\<open>v.get(key, default)\<close>: only a dict has the method.\<close>

fun py_get :: "json \<Rightarrow> string \<Rightarrow> json \<Rightarrow> error + json" where
  "py_get (JDict kvs) k dflt = Inr (case map_of kvs k of None \<Rightarrow> dflt | Some v \<Rightarrow> v)"
| "py_get v k dflt = Inl AttributeError"

text \<open>\<open>v[key]\<close> with a string key: KeyError on a dict without the key, TypeError on every
  other value.\<close>

fun py_item :: "json \<Rightarrow> string \<Rightarrow> error + json" where
  "py_item (JDict kvs) k = (case map_of kvs k of None \<Rightarrow> Inl (KeyError k) | Some v \<Rightarrow> Inr v)"
| "py_item v k = Inl TypeError"

text \<open>The keys of a dict, in the order of their first binding.\<close>

fun keys_of :: "(string \<times> json) list \<Rightarrow> string list" where
  "keys_of [] = []"
| "keys_of ((k, v) # kvs) = k # filter (\<lambda>k'. k' \<noteq> k) (keys_of kvs)"

text \<open>The items that \<open>for x in v\<close> runs through: the elements of a list, the characters
  of a string, the keys of a dict; the other values are not iterable.\<close>

fun py_iter :: "json \<Rightarrow> error + json list" where
  "py_iter (JList vs) = Inr vs"
| "py_iter (JStr str) = Inr (map (\<lambda>c. JStr [c]) str)"
| "py_iter (JDict kvs) = Inr (map JStr (keys_of kvs))"
| "py_iter v = Inl TypeError"

text \<open>The number that a value is in arithmetic and in comparisons with a number
  (a bool counts as 0 or 1); the other values raise TypeError there.\<close>

fun py_num :: "json \<Rightarrow> real option" where
  "py_num (JNum r) = Some r"
| "py_num (JBool b) = Some (if b then 1 else 0)"
| "py_num v = None"

definition py_gt :: "json \<Rightarrow> real \<Rightarrow> error + bool" where
  "py_gt v c = (case py_num v of None \<Rightarrow> Inl TypeError | Some r \<Rightarrow> Inr (r > c))"

definition py_ge :: "json \<Rightarrow> real \<Rightarrow> error + bool" where
  "py_ge v c = (case py_num v of None \<Rightarrow> Inl TypeError | Some r \<Rightarrow> Inr (r \<ge> c))"

definition py_lt :: "json \<Rightarrow> real \<Rightarrow> error + bool" where
  "py_lt v c = (case py_num v of None \<Rightarrow> Inl TypeError | Some r \<Rightarrow> Inr (r < c))"

definition py_mul :: "json \<Rightarrow> real \<Rightarrow> error + real" where
  "py_mul v c = (case py_num v of None \<Rightarrow> Inl TypeError | Some r \<Rightarrow> Inr (r * c))"

text \<open>\<open>a and b\<close>, and a step of \<open>all(...)\<close>: the right operand is evaluated only if the
  left one is true.\<close>

definition py_and :: "error + bool \<Rightarrow> error + bool \<Rightarrow> error + bool" where
  "py_and a b = bind a (\<lambda>x. if x then b else Inr False)"

text \<open>
  How the built-ins \<open>int\<close> and \<open>float\<close> read a string is Python's own grammar of
  numerals, which is not part of this program: it is a parameter of the model.
  \<open>None\<close> stands for the ValueError that the built-in raises on a string it cannot read.
\<close>

record builtins =
  int_of_str :: "string \<Rightarrow> int option"
  float_of_str :: "string \<Rightarrow> real option"

text \<open>\<open>int(v)\<close>: a number is truncated towards zero, a bool is 0 or 1, a string is
  parsed; \<open>None\<close>, a list and a dict raise TypeError.\<close>

fun py_int :: "builtins \<Rightarrow> json \<Rightarrow> error + int" where
  "py_int py (JNum r) = Inr (if r < 0 then \<lceil>r\<rceil> else \<lfloor>r\<rfloor>)"
| "py_int py (JBool b) = Inr (if b then 1 else 0)"
| "py_int py (JStr str) =
     (case int_of_str py str of
        None \<Rightarrow> Inl (ValueError ''invalid literal for int() with base 10'')
      | Some i \<Rightarrow> Inr i)"
| "py_int py v = Inl TypeError"

text \<open>\<open>float(v)\<close>\<close>

fun py_float :: "builtins \<Rightarrow> json \<Rightarrow> error + real" where
  "py_float py (JNum r) = Inr r"
| "py_float py (JBool b) = Inr (if b then 1 else 0)"
| "py_float py (JStr str) =
     (case float_of_str py str of
        None \<Rightarrow> Inl (ValueError ''could not convert string to float'')
      | Some r \<Rightarrow> Inr r)"
| "py_float py v = Inl TypeError"

text \<open>
  An instance of the built-ins for the concrete evaluations below: it reads plain
  decimal integers with an optional sign.  (Python reads more: surrounding blanks,
  underscores, fractions and exponents.  No theorem depends on the instance.)
\<close>

definition digit_of :: "char \<Rightarrow> nat option" where
  "digit_of c = (let n = (of_char c :: nat) in if 48 \<le> n \<and> n \<le> 57 then Some (n - 48) else None)"

fun nat_of_digits :: "nat \<Rightarrow> string \<Rightarrow> nat option" where
  "nat_of_digits acc [] = Some acc"
| "nat_of_digits acc (c # cs) =
     (case digit_of c of None \<Rightarrow> None | Some n \<Rightarrow> nat_of_digits (10 * acc + n) cs)"

definition decimal_nat :: "string \<Rightarrow> nat option" where
  "decimal_nat str = (if str = [] then None else nat_of_digits 0 str)"

definition decimal_int :: "string \<Rightarrow> int option" where
  "decimal_int str =
     (case str of
        [] \<Rightarrow> None
      | c # cs \<Rightarrow>
          if c = CHR ''-'' then map_option (\<lambda>n. - int n) (decimal_nat cs)
          else if c = CHR ''+'' then map_option int (decimal_nat cs)
          else map_option int (decimal_nat str))"

definition decimal_float :: "string \<Rightarrow> real option" where
  "decimal_float str = map_option real_of_int (decimal_int str)"

definition decimal_builtins :: builtins where
  "decimal_builtins = \<lparr> int_of_str = decimal_int, float_of_str = decimal_float \<rparr>"

section \<open>Data integration layer (data_integration.py)\<close>

text \<open>
  The raw data is whatever \<open>json.load\<close> returned: a JSON value.  The normalized data is
  built by the code itself, so it is a record; the date of a metric and the user id are
  copied as they are.
\<close>

record physical_activity =
  pa_steps :: int
  pa_heart_rate :: int
  pa_hrv :: int

record sleep =
  duration_hours :: real
  quality_score :: string

record derived_metrics =
  activity_level :: string
  heart_rate_zone :: string
  sleep_adequacy :: string

record normalized_metric =
  nm_date :: json
  nm_physical_activity :: physical_activity
  nm_sleep :: sleep
  nm_derived_metrics :: derived_metrics

record normalized_data =
  nd_user_id :: json
  nd_data_source :: string
  nd_last_updated :: string
  nd_metrics :: "normalized_metric list"

text \<open>The state of a \<open>HealthDataIntegrator\<close> object: \<open>self.config\<close> and
  \<open>self.normalized_data\<close> (the empty dict of \<open>__init__\<close> is \<open>None\<close>).\<close>

record integrator =
  config :: "(string \<times> json) list"
  normalized_data :: "normalized_data option"

text \<open>The four classifiers compare the raw value of the metric, as it came from the
  JSON file, with their thresholds; a value that is not a number raises TypeError at
  the first comparison.\<close>

definition calculate_sleep_quality :: "json \<Rightarrow> error + string" where
  "calculate_sleep_quality sleep_hours =
     bind (py_ge sleep_hours 7) (\<lambda>c1. if c1 then Inr ''excellent'' else
     bind (py_ge sleep_hours 6) (\<lambda>c2. if c2 then Inr ''good'' else
     bind (py_ge sleep_hours 5) (\<lambda>c3. if c3 then Inr ''fair'' else Inr ''poor'')))"

definition classify_activity_level :: "json \<Rightarrow> error + string" where
  "classify_activity_level stps =
     bind (py_ge stps 10000) (\<lambda>c1. if c1 then Inr ''high'' else
     bind (py_ge stps 5000) (\<lambda>c2. if c2 then Inr ''moderate'' else Inr ''low''))"

definition classify_heart_rate_zone :: "json \<Rightarrow> error + string" where
  "classify_heart_rate_zone hr =
     bind (py_lt hr 60) (\<lambda>c1. if c1 then Inr ''resting'' else
     bind (py_lt hr 100) (\<lambda>c2. if c2 then Inr ''normal'' else
     bind (py_lt hr 120) (\<lambda>c3. if c3 then Inr ''elevated'' else Inr ''high'')))"

definition assess_sleep_adequacy :: "json \<Rightarrow> error + string" where
  "assess_sleep_adequacy sleep_hours =
     bind (py_ge sleep_hours 7) (\<lambda>c1. if c1 then Inr ''adequate'' else
     bind (py_ge sleep_hours 6) (\<lambda>c2. if c2 then Inr ''borderline'' else Inr ''insufficient''))"





text \<open>The body of the loop of \<open>normalize_data\<close>.  The entries of the dict literal are
  evaluated in the order in which they are written: \<open>metric['date']\<close>,
  \<open>int(metric['steps'])\<close>, \<open>int(metric['heart_rate'])\<close>, \<open>int(metric.get('hrv', 0))\<close>,
  \<open>float(metric['sleep_hours'])\<close>, then the four classifiers on the raw values.\<close>

definition normalize_metric :: "builtins \<Rightarrow> json \<Rightarrow> error + normalized_metric" where
  "normalize_metric py metric =
     bind (py_item metric ''date'') (\<lambda>d.
     bind (bind (py_item metric ''steps'') (py_int py)) (\<lambda>s.
     bind (bind (py_item metric ''heart_rate'') (py_int py)) (\<lambda>hr.
     bind (bind (py_get metric ''hrv'' (JNum 0)) (py_int py)) (\<lambda>v.
     bind (bind (py_item metric ''sleep_hours'') (py_float py)) (\<lambda>h.
     bind (bind (py_item metric ''sleep_hours'') calculate_sleep_quality) (\<lambda>q.
     bind (bind (py_item metric ''steps'') classify_activity_level) (\<lambda>level.
     bind (bind (py_item metric ''heart_rate'') classify_heart_rate_zone) (\<lambda>zone.
     bind (bind (py_item metric ''sleep_hours'') assess_sleep_adequacy) (\<lambda>adequacy.
       Inr \<lparr> nm_date = d,
             nm_physical_activity = \<lparr> pa_steps = s, pa_heart_rate = hr, pa_hrv = v \<rparr>,
             nm_sleep = \<lparr> duration_hours = h, quality_score = q \<rparr>,
             nm_derived_metrics =
               \<lparr> activity_level = level, heart_rate_zone = zone,
                 sleep_adequacy = adequacy \<rparr> \<rparr>)))))))))"

fun normalize_metrics :: "builtins \<Rightarrow> json list \<Rightarrow> error + normalized_metric list" where
  "normalize_metrics py [] = Inr []"
| "normalize_metrics py (metric # rest) =
     bind (normalize_metric py metric) (\<lambda>n.
     bind (normalize_metrics py rest) (\<lambda>ns. Inr (n # ns)))"

text \<open>\<open>normalize_data\<close>, with the object's state and the clock reading
  (\<open>datetime.now().isoformat()\<close>) passed in.  \<open>self.normalized_data\<close> is assigned only
  when the loop has finished without an exception.\<close>

definition normalize_data ::
  "builtins \<Rightarrow> integrator \<Rightarrow> string \<Rightarrow> json \<Rightarrow> (error + normalized_data) \<times> integrator" where
  "normalize_data py self now raw =
     (case bind (py_item raw ''user_id'') (\<lambda>u.
           bind (py_item raw ''metrics'') (\<lambda>ms.
           bind (py_iter ms) (\<lambda>items.
           bind (normalize_metrics py items) (\<lambda>ns.
             Inr \<lparr> nd_user_id = u, nd_data_source = ''mock_data'',
                   nd_last_updated = now, nd_metrics = ns \<rparr>)))) of
        Inl e \<Rightarrow> (Inl e, self)
      | Inr normalized \<Rightarrow> (Inr normalized, self\<lparr>normalized_data := Some normalized\<rparr>))"


text \<open>The record sequence of a normalization result, or the exception it raised.\<close>

definition records_of :: "(error + normalized_data) \<times> integrator \<Rightarrow> error + normalized_metric list" where
  "records_of res = map_sum id nd_metrics (fst res)"

section \<open>numpy statistics and Python's min and max\<close>

text \<open>
  \<open>np.mean\<close> and \<open>np.std\<close> (the population standard deviation) of a list.  On an
  empty list numpy warns and returns \<open>nan\<close>; that is the value \<open>None\<close>.
\<close>

definition np_mean :: "real list \<Rightarrow> real option" where
  "np_mean xs = (if xs = [] then None else Some (sum_list xs / real (length xs)))"

definition np_std :: "real list \<Rightarrow> real option" where
  "np_std xs =
     (case np_mean xs of
        None \<Rightarrow> None
      | Some m \<Rightarrow> Some (sqrt (sum_list (map (\<lambda>x. (x - m)\<^sup>2) xs) / real (length xs))))"

text \<open>
  Python's \<open>min(a, b)\<close> starts from \<open>a\<close> and takes \<open>b\<close> only if \<open>b < a\<close>, and
  \<open>max(a, b)\<close> takes \<open>b\<close> only if \<open>b > a\<close>; every comparison with \<open>nan\<close> is false, so
  with a \<open>nan\<close> second argument both return the first.
\<close>

definition py_min :: "real \<Rightarrow> real option \<Rightarrow> real" where
  "py_min a b = (case b of None \<Rightarrow> a | Some y \<Rightarrow> if y < a then y else a)"

definition py_max :: "real \<Rightarrow> real option \<Rightarrow> real" where
  "py_max a b = (case b of None \<Rightarrow> a | Some y \<Rightarrow> if y > a then y else a)"

section \<open>Fitness tracking agent (fitness_tracking_agent.py)\<close>

record activity_goals =
  steps_daily :: int
  calories_daily :: int
  active_minutes_daily :: int

record fitness_agent =
  activity_goals :: activity_goals

text \<open>The object built by \<open>FitnessTrackingAgent()\<close>.\<close>

definition FitnessTrackingAgent :: fitness_agent where
  "FitnessTrackingAgent =
     \<lparr> activity_goals =
         \<lparr> steps_daily = 10000, calories_daily = 500, active_minutes_daily = 30 \<rparr> \<rparr>"

record performance_metrics =
  average_steps :: real
  max_steps :: int
  min_steps :: int
  average_heart_rate :: real
  fitness_score :: real
  goal_achievement_rate :: real

definition calculate_fitness_score :: "fitness_agent \<Rightarrow> int list \<Rightarrow> int list \<Rightarrow> real" where
  "calculate_fitness_score self stps heart_rates =
     (let steps_score =
            py_min 100 (map_option (\<lambda>m. (m / 10000) * 100) (np_mean (map real_of_int stps)));
          hr_score =
            py_max 0 (map_option (\<lambda>m. 100 - (m - 60) * 2) (np_mean (map real_of_int heart_rates)))
      in (steps_score + hr_score) / 2)"

definition calculate_goal_achievement_rate :: "fitness_agent \<Rightarrow> int list \<Rightarrow> real" where
  "calculate_goal_achievement_rate self stps =
     (if stps = [] then 0
      else (let achieved_days = length (filter (\<lambda>step. step \<ge> steps_daily (activity_goals self)) stps)
            in (real achieved_days / real (length stps)) * 100))"

text \<open>\<open>_calculate_performance_metrics\<close>.  On an empty list \<open>np.max\<close> raises ValueError
  (after \<open>np.mean\<close> has returned \<open>nan\<close>), so the means are defined where the dict is built.\<close>

definition calculate_performance_metrics ::
  "fitness_agent \<Rightarrow> normalized_metric list \<Rightarrow> error + performance_metrics" where
  "calculate_performance_metrics self ms =
     (let stps = map (\<lambda>m. pa_steps (nm_physical_activity m)) ms;
          heart_rates = map (\<lambda>m. pa_heart_rate (nm_physical_activity m)) ms
      in if stps = [] then Inl (ValueError ''zero-size array to reduction operation maximum which has no identity'')
         else Inr \<lparr> average_steps = the (np_mean (map real_of_int stps)),
                    max_steps = Max (set stps),
                    min_steps = Min (set stps),
                    average_heart_rate = the (np_mean (map real_of_int heart_rates)),
                    fitness_score = calculate_fitness_score self stps heart_rates,
                    goal_achievement_rate = calculate_goal_achievement_rate self stps \<rparr>)"

section \<open>Sleep analysis agent (sleep_analysis_agent.py)\<close>

record sleep_goals =
  optimal_duration :: real
  minimum_duration :: real
  maximum_duration :: real
  consistency_threshold :: real

record sleep_agent =
  sleep_goals :: sleep_goals

text \<open>The object built by \<open>SleepAnalysisAgent()\<close>.\<close>

definition SleepAnalysisAgent :: sleep_agent where
  "SleepAnalysisAgent =
     \<lparr> sleep_goals =
         \<lparr> optimal_duration = 7.5, minimum_duration = 6.0, maximum_duration = 9.0,
           consistency_threshold = 0.8 \<rparr> \<rparr>"

text \<open>An entry of the list \<open>sleep_data\<close> that \<open>analyze_sleep_data\<close> extracts from the
  normalized metrics, and an entry of the recommendation list.\<close>

record sleep_entry =
  se_date :: string
  se_sleep_hours :: real
  se_quality_score :: string
  se_adequacy :: string

record sleep_recommendation =
  sr_date :: string
  recommendation :: string
  priority :: string
  sr_sleep_hours :: real
  sr_quality_score :: string

text \<open>The body of the loop of \<open>_generate_sleep_recommendations\<close>: an if/elif chain
  that tests the duration first and the quality only for durations from 6 to 9 hours.\<close>

definition sleep_recommendation_for :: "sleep_entry \<Rightarrow> sleep_recommendation" where
  "sleep_recommendation_for entry =
     (let duration = se_sleep_hours entry;
          quality = se_quality_score entry;
          (rec_text, prio) =
            (if duration < 6 then
               (''Your sleep duration is insufficient. Aim for 7-9 hours nightly for optimal health and recovery.'',
                ''high'')
             else if duration > 9 then
               (''You're sleeping more than recommended. Consider if you're getting quality sleep or if there are underlying health issues.'',
                ''medium'')
             else if quality = ''poor'' then
               (''Focus on sleep quality. Consider sleep hygiene practices like consistent bedtime and screen-free hour before bed.'',
                ''high'')
             else if quality = ''fair'' then
               (''Your sleep is adequate but could be improved. Try maintaining a consistent sleep schedule.'',
                ''medium'')
             else
               (''Excellent sleep habits! Continue maintaining your current sleep routine.'',
                ''low''))
      in \<lparr> sr_date = se_date entry, recommendation = rec_text, priority = prio,
           sr_sleep_hours = duration, sr_quality_score = quality \<rparr>)"

definition generate_sleep_recommendations :: "sleep_agent \<Rightarrow> sleep_entry list \<Rightarrow> sleep_recommendation list" where
  "generate_sleep_recommendations self sleep_data = map sleep_recommendation_for sleep_data"

text \<open>\<open>_calculate_consistency\<close>.  With a zero mean the float division gives \<open>nan\<close> or
  an infinity (numpy warns, it does not raise): the result is not a finite number.\<close>

definition calculate_consistency :: "sleep_agent \<Rightarrow> real list \<Rightarrow> real option" where
  "calculate_consistency self durations =
     (if length durations < 2 then Some 1.0
      else (case (np_std durations, np_mean durations) of
              (Some sd, Some m) \<Rightarrow> if m = 0 then None else Some (1.0 - sd / m)
            | _ \<Rightarrow> None))"

definition calculate_sleep_score :: "sleep_agent \<Rightarrow> real list \<Rightarrow> real option" where
  "calculate_sleep_score self durations =
     (if durations = [] then Some 0.0
      else (let avg_duration = the (np_mean durations);
                consistency = calculate_consistency self durations;
                duration_score =
                  (if 7 \<le> avg_duration \<and> avg_duration \<le> 9 then 70
                   else if (6 \<le> avg_duration \<and> avg_duration < 7) \<or>
                           (9 < avg_duration \<and> avg_duration \<le> 10) then 50
                   else 30)
            in map_option (\<lambda>c. duration_score + c * 30) consistency))"

definition calculate_sleep_debt :: "sleep_agent \<Rightarrow> real list \<Rightarrow> real" where
  "calculate_sleep_debt self durations =
     (if durations = [] then 0.0
      else (let optimal = optimal_duration (sleep_goals self)
            in sum_list (map (\<lambda>duration. max 0 (optimal - duration)) durations)))"

section \<open>Insights aggregator (Aggregate_insights.py)\<close>

text \<open>\<open>report[section].get(key, default)\<close>\<close>

definition section_get :: "json \<Rightarrow> string \<Rightarrow> string \<Rightarrow> json \<Rightarrow> error + json" where
  "section_get report section k dflt = bind (py_item report section) (\<lambda>d. py_get d k dflt)"

record correlation =
  strength :: string
  description :: string

record priority_recommendation =
  pr_priority :: string
  pr_category :: string
  pr_recommendation :: string
  pr_action :: string

record action_bundle =
  week :: json
  focus :: string
  actions :: "string list"

text \<open>The dict returned by \<open>aggregate_insights\<close>; the key \<open>error\<close> is present only in
  the error response.\<close>

record aggregated_analysis =
  ai_user_id :: json
  ai_analysis_date :: string
  ai_error :: "string option"
  holistic_insights :: "string list"
  correlation_analysis :: "(string \<times> correlation) list"
  priority_recommendations :: "priority_recommendation list"
  wellness_score :: real
  trend_analysis :: "(string \<times> json) list"
  action_plan :: "action_bundle list"

record aggregator =
  correlation_weights :: "(string \<times> real) list"

text \<open>The object built by \<open>InsightsAggregator()\<close>.\<close>

definition InsightsAggregator :: aggregator where
  "InsightsAggregator =
     \<lparr> correlation_weights =
         [(''fitness_sleep'', 0.3), (''fitness_mood'', 0.4), (''sleep_mood'', 0.3)] \<rparr>"

subsection \<open>Holistic insights\<close>

definition holistic_fitness_sleep :: "json \<Rightarrow> json \<Rightarrow> error + string list" where
  "holistic_fitness_sleep fitness_data sleep_data =
     bind (py_and (py_in ''performance_metrics'' fitness_data) (py_in ''sleep_patterns'' sleep_data))
       (\<lambda>present. if \<not> present then Inr [] else
     bind (section_get fitness_data ''performance_metrics'' ''average_steps'' (JNum 0)) (\<lambda>avg_steps.
     bind (section_get sleep_data ''sleep_patterns'' ''average_duration'' (JNum 0)) (\<lambda>avg_sleep.
     bind (py_and (py_gt avg_steps 8000) (py_ge avg_sleep 7)) (\<lambda>c1.
       if c1 then Inr [''Excellent balance between physical activity and sleep! Your lifestyle supports optimal health.''] else
     bind (py_and (py_lt avg_steps 5000) (py_lt avg_sleep 6)) (\<lambda>c2.
       if c2 then Inr [''Both your activity level and sleep duration need attention. Consider a gradual approach to improve both areas.''] else
     bind (py_and (py_gt avg_steps 8000) (py_lt avg_sleep 6)) (\<lambda>c3.
       if c3 then Inr [''High activity with insufficient sleep may lead to burnout. Prioritize sleep for better recovery.'']
       else Inr []))))))"

definition holistic_mood_fitness :: "json \<Rightarrow> json \<Rightarrow> error + string list" where
  "holistic_mood_fitness fitness_data sentiment_data =
     bind (py_and (py_in ''summary'' sentiment_data) (py_in ''performance_metrics'' fitness_data))
       (\<lambda>present. if \<not> present then Inr [] else
     bind (section_get sentiment_data ''summary'' ''overall_sentiment'' (JStr ''neutral'')) (\<lambda>overall_sentiment.
     bind (section_get fitness_data ''performance_metrics'' ''fitness_score'' (JNum 0)) (\<lambda>fitness_score.
     bind (py_and (Inr (overall_sentiment = JStr ''positive'')) (py_gt fitness_score 70)) (\<lambda>c1.
       if c1 then Inr [''Great synergy between your mental and physical well-being! This positive cycle supports overall health.''] else
     bind (py_and (Inr (overall_sentiment = JStr ''negative'')) (py_lt fitness_score 50)) (\<lambda>c2.
       if c2 then Inr [''Your mood and physical activity both need attention. Consider starting with light exercise to boost both mood and fitness.'']
       else Inr [])))))"

definition holistic_sleep_mood :: "json \<Rightarrow> json \<Rightarrow> error + string list" where
  "holistic_sleep_mood sleep_data sentiment_data =
     bind (py_and (py_in ''sleep_quality_metrics'' sleep_data) (py_in ''summary'' sentiment_data))
       (\<lambda>present. if \<not> present then Inr [] else
     bind (section_get sleep_data ''sleep_quality_metrics'' ''sleep_score'' (JNum 0)) (\<lambda>sleep_score.
     bind (section_get sentiment_data ''summary'' ''overall_sentiment'' (JStr ''neutral'')) (\<lambda>overall_sentiment.
     bind (py_and (py_gt sleep_score 80) (Inr (overall_sentiment = JStr ''positive''))) (\<lambda>c1.
       if c1 then Inr [''Quality sleep is supporting your positive mood. Maintain your current sleep routine.''] else
     bind (py_and (py_lt sleep_score 50) (Inr (overall_sentiment = JStr ''negative''))) (\<lambda>c2.
       if c2 then Inr [''Poor sleep quality may be contributing to low mood. Focus on sleep hygiene to improve both sleep and emotional well-being.'']
       else Inr [])))))"

definition generate_holistic_insights ::
  "aggregator \<Rightarrow> json \<Rightarrow> json \<Rightarrow> json \<Rightarrow> error + string list" where
  "generate_holistic_insights self fitness_data sleep_data sentiment_data =
     bind (holistic_fitness_sleep fitness_data sleep_data) (\<lambda>i1.
     bind (holistic_mood_fitness fitness_data sentiment_data) (\<lambda>i2.
     bind (holistic_sleep_mood sleep_data sentiment_data) (\<lambda>i3.
       Inr (i1 @ i2 @ i3))))"

subsection \<open>Correlation analysis\<close>

definition correlation_fitness_sleep :: "json \<Rightarrow> json \<Rightarrow> error + (string \<times> correlation) list" where
  "correlation_fitness_sleep fitness_data sleep_data =
     bind (py_and (py_in ''performance_metrics'' fitness_data) (py_in ''sleep_patterns'' sleep_data))
       (\<lambda>present. if \<not> present then Inr [] else
     bind (section_get fitness_data ''performance_metrics'' ''fitness_score'' (JNum 0)) (\<lambda>fitness_score.
     bind (section_get sleep_data ''sleep_quality_metrics'' ''sleep_score'' (JNum 0)) (\<lambda>sleep_score.
     bind (py_and (py_gt fitness_score 70) (py_gt sleep_score 70)) (\<lambda>c1.
       if c1 then Inr [(''fitness_sleep'',
                        \<lparr> strength = ''strong_positive'',
                          description = ''High fitness levels correlate with good sleep quality'' \<rparr>)] else
     bind (py_and (py_lt fitness_score 50) (py_lt sleep_score 50)) (\<lambda>c2.
       if c2 then Inr [(''fitness_sleep'',
                        \<lparr> strength = ''strong_negative'',
                          description = ''Low fitness and poor sleep may be interconnected'' \<rparr>)]
       else Inr [(''fitness_sleep'',
                  \<lparr> strength = ''moderate'',
                    description = ''Some correlation between fitness and sleep patterns'' \<rparr>)])))))"

definition correlation_mood_fitness :: "json \<Rightarrow> json \<Rightarrow> error + (string \<times> correlation) list" where
  "correlation_mood_fitness fitness_data sentiment_data =
     bind (py_and (py_in ''summary'' sentiment_data) (py_in ''performance_metrics'' fitness_data))
       (\<lambda>present. if \<not> present then Inr [] else
     bind (section_get sentiment_data ''summary'' ''sentiment_distribution'' (JDict [])) (\<lambda>sentiment_dist.
     bind (py_get sentiment_dist ''positive_percentage'' (JNum 0)) (\<lambda>positive_pct.
     bind (section_get fitness_data ''performance_metrics'' ''fitness_score'' (JNum 0)) (\<lambda>fitness_score.
     bind (py_and (py_gt positive_pct 60) (py_gt fitness_score 70)) (\<lambda>c1.
       if c1 then Inr [(''mood_fitness'',
                        \<lparr> strength = ''strong_positive'',
                          description = ''Positive mood correlates with high fitness levels'' \<rparr>)] else
     bind (py_and (py_lt positive_pct 40) (py_lt fitness_score 50)) (\<lambda>c2.
       if c2 then Inr [(''mood_fitness'',
                        \<lparr> strength = ''strong_negative'',
                          description = ''Low mood and low fitness may be related'' \<rparr>)]
       else Inr []))))))"

definition analyze_correlations ::
  "aggregator \<Rightarrow> json \<Rightarrow> json \<Rightarrow> json \<Rightarrow> error + (string \<times> correlation) list" where
  "analyze_correlations self fitness_data sleep_data sentiment_data =
     bind (correlation_fitness_sleep fitness_data sleep_data) (\<lambda>c1.
     bind (correlation_mood_fitness fitness_data sentiment_data) (\<lambda>c2.
       Inr (c1 @ c2)))"

subsection \<open>Priority recommendations\<close>

definition recommend_sleep :: "json \<Rightarrow> error + priority_recommendation list" where
  "recommend_sleep sleep_data =
     bind (py_in ''sleep_patterns'' sleep_data) (\<lambda>present. if \<not> present then Inr [] else
     bind (section_get sleep_data ''sleep_patterns'' ''average_duration'' (JNum 0)) (\<lambda>avg_sleep.
     bind (py_lt avg_sleep 6) (\<lambda>c.
       if c then Inr [\<lparr> pr_priority = ''high'', pr_category = ''sleep'',
                        pr_recommendation = ''Sleep duration is critically low. This should be your top priority for health improvement.'',
                        pr_action = ''Establish a consistent bedtime routine and aim for 7-9 hours nightly.'' \<rparr>]
       else Inr [])))"

definition recommend_mental_health :: "json \<Rightarrow> error + priority_recommendation list" where
  "recommend_mental_health sentiment_data =
     bind (py_in ''summary'' sentiment_data) (\<lambda>present. if \<not> present then Inr [] else
     bind (section_get sentiment_data ''summary'' ''sentiment_distribution'' (JDict [])) (\<lambda>sentiment_dist.
     bind (py_get sentiment_dist ''negative_percentage'' (JNum 0)) (\<lambda>negative_pct.
     bind (py_gt negative_pct 60) (\<lambda>c.
       if c then Inr [\<lparr> pr_priority = ''high'', pr_category = ''mental_health'',
                        pr_recommendation = ''High frequency of negative emotions detected. Consider professional support.'',
                        pr_action = ''Reach out to a mental health professional or trusted support system.'' \<rparr>]
       else Inr []))))"

definition recommend_fitness :: "json \<Rightarrow> error + priority_recommendation list" where
  "recommend_fitness fitness_data =
     bind (py_in ''performance_metrics'' fitness_data) (\<lambda>present. if \<not> present then Inr [] else
     bind (section_get fitness_data ''performance_metrics'' ''fitness_score'' (JNum 0)) (\<lambda>fitness_score.
     bind (py_lt fitness_score 60) (\<lambda>c.
       if c then Inr [\<lparr> pr_priority = ''medium'', pr_category = ''fitness'',
                        pr_recommendation = ''Fitness levels could be improved for better health outcomes.'',
                        pr_action = ''Start with 30 minutes of moderate activity daily, gradually increasing intensity.'' \<rparr>]
       else Inr [])))"

definition recommend_maintenance :: "json \<Rightarrow> json \<Rightarrow> error + priority_recommendation list" where
  "recommend_maintenance fitness_data sleep_data =
     bind (py_and (py_in ''performance_metrics'' fitness_data) (py_in ''sleep_patterns'' sleep_data))
       (\<lambda>present. if \<not> present then Inr [] else
     bind (section_get fitness_data ''performance_metrics'' ''fitness_score'' (JNum 0)) (\<lambda>fitness_score.
     bind (section_get sleep_data ''sleep_quality_metrics'' ''sleep_score'' (JNum 0)) (\<lambda>sleep_score.
     bind (py_and (py_gt fitness_score 80) (py_gt sleep_score 80)) (\<lambda>c.
       if c then Inr [\<lparr> pr_priority = ''low'', pr_category = ''maintenance'',
                        pr_recommendation = ''Excellent health metrics! Focus on maintaining current habits.'',
                        pr_action = ''Continue current routine and consider adding variety to prevent plateau.'' \<rparr>]
       else Inr []))))"

definition generate_priority_recommendations ::
  "aggregator \<Rightarrow> json \<Rightarrow> json \<Rightarrow> json \<Rightarrow> error + priority_recommendation list" where
  "generate_priority_recommendations self fitness_data sleep_data sentiment_data =
     bind (recommend_sleep sleep_data) (\<lambda>r1.
     bind (recommend_mental_health sentiment_data) (\<lambda>r2.
     bind (recommend_fitness fitness_data) (\<lambda>r3.
     bind (recommend_maintenance fitness_data sleep_data) (\<lambda>r4.
       Inr (r1 @ r2 @ r3 @ r4)))))"

subsection \<open>Wellness score\<close>

text \<open>The three blocks of \<open>_calculate_wellness_score\<close>; each yields the list of what it
  appends to \<open>scores\<close>.\<close>

definition fitness_component :: "json \<Rightarrow> error + real list" where
  "fitness_component fitness_data =
     bind (py_in ''performance_metrics'' fitness_data) (\<lambda>present. if \<not> present then Inr [] else
     bind (section_get fitness_data ''performance_metrics'' ''fitness_score'' (JNum 0)) (\<lambda>fitness_score.
     bind (py_mul fitness_score 0.4) (\<lambda>x. Inr [x])))"

definition sleep_component :: "json \<Rightarrow> error + real list" where
  "sleep_component sleep_data =
     bind (py_in ''sleep_quality_metrics'' sleep_data) (\<lambda>present. if \<not> present then Inr [] else
     bind (section_get sleep_data ''sleep_quality_metrics'' ''sleep_score'' (JNum 0)) (\<lambda>sleep_score.
     bind (py_mul sleep_score 0.35) (\<lambda>x. Inr [x])))"

definition mood_component :: "json \<Rightarrow> error + real list" where
  "mood_component sentiment_data =
     bind (py_in ''summary'' sentiment_data) (\<lambda>present. if \<not> present then Inr [] else
     bind (section_get sentiment_data ''summary'' ''sentiment_distribution'' (JDict [])) (\<lambda>sentiment_dist.
     bind (py_get sentiment_dist ''positive_percentage'' (JNum 0)) (\<lambda>positive_pct.
     bind (py_mul positive_pct 0.25) (\<lambda>x. Inr [x]))))"

definition calculate_wellness_score ::
  "aggregator \<Rightarrow> json \<Rightarrow> json \<Rightarrow> json \<Rightarrow> error + real" where
  "calculate_wellness_score self fitness_data sleep_data sentiment_data =
     bind (fitness_component fitness_data) (\<lambda>s1.
     bind (sleep_component sleep_data) (\<lambda>s2.
     bind (mood_component sentiment_data) (\<lambda>s3.
       (let scores = s1 @ s2 @ s3
        in Inr (if scores \<noteq> [] then sum_list scores else 0.0)))))"

subsection \<open>Trends, action plan and the entry point\<close>

definition trend_of :: "string \<Rightarrow> json \<Rightarrow> string \<Rightarrow> string \<Rightarrow> error + (string \<times> json) list" where
  "trend_of name report section k =
     bind (py_in section report) (\<lambda>present. if \<not> present then Inr [] else
     bind (section_get report section k (JStr ''stable'')) (\<lambda>trend. Inr [(name, trend)]))"

definition analyze_trends ::
  "aggregator \<Rightarrow> json \<Rightarrow> json \<Rightarrow> json \<Rightarrow> error + (string \<times> json) list" where
  "analyze_trends self fitness_data sleep_data sentiment_data =
     bind (trend_of ''fitness'' fitness_data ''trends'' ''steps_trend'') (\<lambda>t1.
     bind (trend_of ''sleep'' sleep_data ''sleep_patterns'' ''quality_trend'') (\<lambda>t2.
     bind (trend_of ''mood'' sentiment_data ''sentiment_trends'' ''trend'') (\<lambda>t3.
       (let trends = t1 @ t2 @ t3;
            improving_trends = length (filter (\<lambda>trend. trend = JStr ''improving'') (map snd trends));
            declining_trends = length (filter (\<lambda>trend. trend = JStr ''declining'') (map snd trends));
            overall = (if improving_trends > declining_trends then ''improving''
                       else if declining_trends > improving_trends then ''declining''
                       else ''stable'')
        in Inr (trends @ [(''overall'', JStr overall)])))))"

definition generate_action_plan :: "aggregator \<Rightarrow> json \<Rightarrow> json \<Rightarrow> json \<Rightarrow> action_bundle list" where
  "generate_action_plan self fitness_data sleep_data sentiment_data =
     [ \<lparr> week = JNum 1, focus = ''Foundation'',
         actions = [''Establish consistent sleep schedule (same bedtime and wake time)'',
                    ''Start with 10-minute daily walks'',
                    ''Practice 5 minutes of daily gratitude journaling''] \<rparr>,
       \<lparr> week = JStr ''2-4'', focus = ''Building Habits'',
         actions = [''Increase daily steps to 7,000-8,000'',
                    ''Implement sleep hygiene practices'',
                    ''Add 10 minutes of mindfulness or meditation''] \<rparr>,
       \<lparr> week = JStr ''2+ months'', focus = ''Optimization'',
         actions = [''Aim for 10,000 daily steps'',
                    ''Maintain 7-9 hours of quality sleep'',
                    ''Develop stress management techniques''] \<rparr> ]"

definition get_error_response :: "aggregator \<Rightarrow> string \<Rightarrow> aggregated_analysis" where
  "get_error_response self now =
     \<lparr> ai_user_id = JStr ''unknown'', ai_analysis_date = now,
       ai_error = Some ''Insights aggregation failed'',
       holistic_insights = [], correlation_analysis = [], priority_recommendations = [],
       wellness_score = 0.0, trend_analysis = [], action_plan = [] \<rparr>"

text \<open>The body of the \<open>try\<close> block of \<open>aggregate_insights\<close>; \<open>now\<close> is the clock reading
  taken for \<open>analysis_date\<close>.\<close>

definition aggregate_body ::
  "aggregator \<Rightarrow> string \<Rightarrow> json \<Rightarrow> json \<Rightarrow> json \<Rightarrow> error + aggregated_analysis" where
  "aggregate_body self now fitness_data sleep_data sentiment_data =
     bind (py_get fitness_data ''user_id'' (JStr ''unknown'')) (\<lambda>uid.
     bind (generate_holistic_insights self fitness_data sleep_data sentiment_data) (\<lambda>insights.
     bind (analyze_correlations self fitness_data sleep_data sentiment_data) (\<lambda>correlations.
     bind (generate_priority_recommendations self fitness_data sleep_data sentiment_data) (\<lambda>recommendations.
     bind (calculate_wellness_score self fitness_data sleep_data sentiment_data) (\<lambda>score.
     bind (analyze_trends self fitness_data sleep_data sentiment_data) (\<lambda>trends.
       Inr \<lparr> ai_user_id = uid, ai_analysis_date = now, ai_error = None,
             holistic_insights = insights, correlation_analysis = correlations,
             priority_recommendations = recommendations, wellness_score = score,
             trend_analysis = trends,
             action_plan = generate_action_plan self fitness_data sleep_data sentiment_data \<rparr>))))))"

text \<open>\<open>aggregate_insights\<close>: \<open>except Exception\<close> catches every exception of the body and
  returns the error response, whose date is the clock reading \<open>later\<close> taken then.\<close>

definition aggregate_insights ::
  "aggregator \<Rightarrow> string \<Rightarrow> string \<Rightarrow> json \<Rightarrow> json \<Rightarrow> json \<Rightarrow> aggregated_analysis" where
  "aggregate_insights self now later fitness_data sleep_data sentiment_data =
     (case aggregate_body self now fitness_data sleep_data sentiment_data of
        Inl e \<Rightarrow> get_error_response self later
      | Inr analysis \<Rightarrow> analysis)"

section \<open>The specification's formulations\<close>

text \<open>
  Definitions that follow the words of the specification, to be compared with the code
  above: the arithmetic mean, the table of per-day sleep recommendation priorities, and
  the typed reading of the three reports from which the wellness score is combined.
\<close>

definition spec_mean :: "real list \<Rightarrow> real" where
  "spec_mean xs = sum_list xs / real (length xs)"

definition spec_priority :: "real \<Rightarrow> string \<Rightarrow> string" where
  "spec_priority duration quality =
     (if duration < 6 \<or> quality = ''poor'' then ''high''
      else if duration > 9 \<or> quality = ''fair'' then ''medium''
      else ''low'')"














section \<open>Properties of the data integration layer\<close>


























text \<open>
  C8.  Boundary values are classified with \<open>\<ge>\<close>/\<open><\<close>: a record with exactly 10000 steps
  is normalized to activity level "high" and one with 9999 steps to "moderate"; a record
  with exactly 7.0 sleep hours gets sleep quality "excellent" and one with 6.99 hours
  gets "good".  The other fields are arbitrary: any date, any numbers for the heart rate
  and the remaining field, with or without an \<open>hrv\<close> entry.
\<close>

theorem C8_boundary_classification:
  "map_sum id (\<lambda>n. activity_level (nm_derived_metrics n))
     (normalize_metric py
        (JDict ([(''date'', d), (''steps'', JNum 10000), (''heart_rate'', JNum hr),
                 (''sleep_hours'', JNum h)]
                @ (case v of None \<Rightarrow> [] | Some x \<Rightarrow> [(''hrv'', JNum x)])))) = Inr ''high''
   \<and> map_sum id (\<lambda>n. activity_level (nm_derived_metrics n))
     (normalize_metric py
        (JDict ([(''date'', d), (''steps'', JNum 9999), (''heart_rate'', JNum hr),
                 (''sleep_hours'', JNum h)]
                @ (case v of None \<Rightarrow> [] | Some x \<Rightarrow> [(''hrv'', JNum x)])))) = Inr ''moderate''
   \<and> map_sum id (\<lambda>n. quality_score (nm_sleep n))
     (normalize_metric py
        (JDict ([(''date'', d), (''steps'', JNum s), (''heart_rate'', JNum hr),
                 (''sleep_hours'', JNum 7.0)]
                @ (case v of None \<Rightarrow> [] | Some x \<Rightarrow> [(''hrv'', JNum x)])))) = Inr ''excellent''
   \<and> map_sum id (\<lambda>n. quality_score (nm_sleep n))
     (normalize_metric py
        (JDict ([(''date'', d), (''steps'', JNum s), (''heart_rate'', JNum hr),
                 (''sleep_hours'', JNum 6.99)]
                @ (case v of None \<Rightarrow> [] | Some x \<Rightarrow> [(''hrv'', JNum x)])))) = Inr ''good''"
  by (cases v)
     (simp_all add: normalize_metric_def bind_def py_ge_def py_lt_def
        classify_activity_level_def calculate_sleep_quality_def classify_heart_rate_zone_def
        assess_sleep_adequacy_def)

text \<open>
  C9 (as stated, refuted).  Two calls of \<open>normalize_data\<close> on the same raw input do not
  produce equal outputs: the returned dict carries the clock reading of the call in
  \<open>last_updated\<close>; and the call is not pure, it stores its result in the object.
\<close>

theorem C9_outputs_differ_in_last_updated:
  "normalize_data decimal_builtins \<lparr>config = [], normalized_data = None\<rparr>
      ''2024-11-22T08:00:00''
      (JDict [(''user_id'', JStr ''user_1''), (''metrics'', JList [])])
     = (Inr \<lparr>nd_user_id = JStr ''user_1'', nd_data_source = ''mock_data'',
              nd_last_updated = ''2024-11-22T08:00:00'', nd_metrics = []\<rparr>,
        \<lparr>config = [],
         normalized_data =
           Some \<lparr>nd_user_id = JStr ''user_1'', nd_data_source = ''mock_data'',
                  nd_last_updated = ''2024-11-22T08:00:00'', nd_metrics = []\<rparr>\<rparr>)
   \<and> fst (normalize_data decimal_builtins \<lparr>config = [], normalized_data = None\<rparr>
          ''2024-11-22T08:00:01''
          (JDict [(''user_id'', JStr ''user_1''), (''metrics'', JList [])]))
     \<noteq> fst (normalize_data decimal_builtins \<lparr>config = [], normalized_data = None\<rparr>
          ''2024-11-22T08:00:00''
          (JDict [(''user_id'', JStr ''user_1''), (''metrics'', JList [])]))"
  by (simp add: normalize_data_def bind_def)

text \<open>
  C9 (amended).  Normalizing the same raw input twice yields identical record sequences
  (or the same exception): the records depend neither on the state of the integrator
  object nor on the clock, so a second call, made in the state the first call left
  behind and at a later time, returns the same records.  The outputs as a whole are
  equal up to \<open>last_updated\<close>, which is the clock reading of the call, and are equal when
  the clock readings are; a successful call stores its output in the object and a
  failed call leaves the object as it was.
\<close>

theorem C9_normalize_data_deterministic:
  "records_of (normalize_data py self1 now1 raw) = records_of (normalize_data py self2 now2 raw)
   \<and> records_of (normalize_data py (snd (normalize_data py self1 now1 raw)) now2 raw)
       = records_of (normalize_data py self1 now1 raw)
   \<and> map_sum id (\<lambda>n. n\<lparr>nd_last_updated := t\<rparr>) (fst (normalize_data py self1 now1 raw))
       = map_sum id (\<lambda>n. n\<lparr>nd_last_updated := t\<rparr>) (fst (normalize_data py self2 now2 raw))
   \<and> map_sum id nd_last_updated (fst (normalize_data py self1 now1 raw))
       = map_sum id (\<lambda>n. now1) (fst (normalize_data py self1 now1 raw))
   \<and> fst (normalize_data py self1 now1 raw) = fst (normalize_data py self2 now1 raw)
   \<and> snd (normalize_data py self1 now1 raw)
       = (case fst (normalize_data py self1 now1 raw) of
            Inl e \<Rightarrow> self1
          | Inr n \<Rightarrow> self1\<lparr>normalized_data := Some n\<rparr>)"
  by (auto simp: records_of_def normalize_data_def bind_def split: sum.splits)




section \<open>Properties of the fitness and sleep agents\<close>

lemma calculate_fitness_score_nonempty:
  assumes "stps \<noteq> []" "heart_rates \<noteq> []"
  shows "calculate_fitness_score self stps heart_rates =
           (min 100 (spec_mean (map real_of_int stps) / 10000 * 100)
            + max 0 (100 - (spec_mean (map real_of_int heart_rates) - 60) * 2)) / 2"
  using assms
  by (simp add: calculate_fitness_score_def np_mean_def py_min_def py_max_def spec_mean_def
        min_def max_def)

text \<open>
  C1 (the code departs from its documented range).  For valid records the scores leave
  the interval [0,100] that the docstrings state: one record with 12000 steps and a heart
  rate of 50 has fitness score 110; with a sleep score of 100 and a positive percentage
  of 100 the wellness score computed from it is 104; and ten records with sleep hours
  0 (nine times) and 10 have sleep score -30.
\<close>

theorem C1_scores_leave_range:
  "calculate_fitness_score FitnessTrackingAgent [12000] [50] = 110
   \<and> calculate_sleep_score SleepAnalysisAgent [8.0] = Some 100
   \<and> calculate_wellness_score InsightsAggregator
        (JDict [(''performance_metrics'',
                 JDict [(''fitness_score'',
                         JNum (calculate_fitness_score FitnessTrackingAgent [12000] [50]))])])
        (JDict [(''sleep_quality_metrics'', JDict [(''sleep_score'', JNum 100)])])
        (JDict [(''summary'',
                 JDict [(''sentiment_distribution'', JDict [(''positive_percentage'', JNum 100)])])])
      = Inr 104
   \<and> calculate_sleep_score SleepAnalysisAgent [0, 0, 0, 0, 0, 0, 0, 0, 0, 10] = Some (- 30)"
proof -
  have f: "calculate_fitness_score FitnessTrackingAgent [12000] [50] = 110"
    by (simp add: calculate_fitness_score_def np_mean_def py_min_def py_max_def)
  have s1: "calculate_sleep_score SleepAnalysisAgent [8.0] = Some 100"
    by (simp add: calculate_sleep_score_def calculate_consistency_def np_mean_def)
  have s2: "calculate_sleep_score SleepAnalysisAgent [0, 0, 0, 0, 0, 0, 0, 0, 0, 10] = Some (- 30)"
    by (simp add: calculate_sleep_score_def calculate_consistency_def np_mean_def np_std_def)
  have w: "calculate_wellness_score InsightsAggregator
        (JDict [(''performance_metrics'', JDict [(''fitness_score'', JNum 110)])])
        (JDict [(''sleep_quality_metrics'', JDict [(''sleep_score'', JNum 100)])])
        (JDict [(''summary'',
                 JDict [(''sentiment_distribution'', JDict [(''positive_percentage'', JNum 100)])])])
      = Inr 104"
    by (simp add: calculate_wellness_score_def fitness_component_def sleep_component_def
          mood_component_def section_get_def py_mul_def bind_def)
  show ?thesis unfolding f using s1 s2 w by simp
qed

text \<open>
  C5 (as stated, refuted).  A record with a duration above 9 hours and quality "poor"
  gets priority "medium", not "high": the duration is tested before the quality.
\<close>

theorem C5_long_poor_sleep_is_medium:
  "priority (sleep_recommendation_for
      \<lparr>se_date = ''2024-11-20'', se_sleep_hours = 9.5, se_quality_score = ''poor'',
       se_adequacy = ''adequate''\<rparr>) = ''medium''
   \<and> spec_priority 9.5 ''poor'' = ''high''"
  by (simp add: sleep_recommendation_for_def spec_priority_def Let_def)

text \<open>
  C5 (amended).  The per-day priority is "high" if the duration is below 6 hours or the
  quality is "poor", "medium" if the duration exceeds 9 hours or the quality is "fair",
  and "low" otherwise, for every record except those with a duration above 9 hours and
  quality "poor", which get "medium".  The records that the normalizer produces, whose
  quality is derived from the duration, are never of that kind.
\<close>

theorem C5_recommendation_priority:
  "(\<not> (se_sleep_hours entry > 9 \<and> se_quality_score entry = ''poor'') \<longrightarrow>
      priority (sleep_recommendation_for entry)
        = spec_priority (se_sleep_hours entry) (se_quality_score entry))
   \<and> (se_sleep_hours entry > 9 \<and> se_quality_score entry = ''poor'' \<longrightarrow>
      priority (sleep_recommendation_for entry) = ''medium'')
   \<and> map priority (generate_sleep_recommendations self sleep_data)
       = map (\<lambda>e. priority (sleep_recommendation_for e)) sleep_data
   \<and> map_sum id
        (\<lambda>q. priority (sleep_recommendation_for
                \<lparr>se_date = d, se_sleep_hours = h, se_quality_score = q, se_adequacy = a\<rparr>)
             = spec_priority h q)
        (calculate_sleep_quality (JNum h)) = Inr True"
  by (simp add: sleep_recommendation_for_def spec_priority_def Let_def
        generate_sleep_recommendations_def calculate_sleep_quality_def bind_def py_ge_def)

theorem C5_recommendation_priority_witness:
  "priority (sleep_recommendation_for
      \<lparr>se_date = ''2024-11-20'', se_sleep_hours = 5.5, se_quality_score = ''fair'',
       se_adequacy = ''insufficient''\<rparr>) = ''high''
   \<and> priority (sleep_recommendation_for
      \<lparr>se_date = ''2024-11-21'', se_sleep_hours = 9.5, se_quality_score = ''poor'',
       se_adequacy = ''adequate''\<rparr>) = ''medium''"
  using C5_recommendation_priority
      [of "\<lparr>se_date = ''2024-11-20'', se_sleep_hours = 5.5, se_quality_score = ''fair'',
            se_adequacy = ''insufficient''\<rparr>"]
    C5_recommendation_priority
      [of "\<lparr>se_date = ''2024-11-21'', se_sleep_hours = 9.5, se_quality_score = ''poor'',
            se_adequacy = ''adequate''\<rparr>"]
  by (simp add: spec_priority_def)

text \<open>
  C6.  For every non-empty record sequence the fitness score in the performance metrics
  is (steps_score + hr_score) / 2 with steps_score = min(100, mean(steps)/10000 * 100)
  and hr_score = max(0, 100 - (mean(heart_rate) - 60) * 2); for the steps
  [8000, 9500, 8500] and heart rates [70, 72, 75] it is 81, within 0.5 of 81.0.
\<close>

theorem C6_fitness_score_formula:
  "(ms \<noteq> [] \<longrightarrow>
      map_sum id fitness_score (calculate_performance_metrics self ms)
        = Inr ((min 100 (spec_mean (map (\<lambda>m. real_of_int (pa_steps (nm_physical_activity m))) ms)
                           / 10000 * 100)
                + max 0 (100 - (spec_mean (map (\<lambda>m. real_of_int (pa_heart_rate (nm_physical_activity m))) ms)
                                  - 60) * 2)) / 2))
   \<and> (stps \<noteq> [] \<and> heart_rates \<noteq> [] \<longrightarrow>
      calculate_fitness_score self stps heart_rates
        = (min 100 (spec_mean (map real_of_int stps) / 10000 * 100)
           + max 0 (100 - (spec_mean (map real_of_int heart_rates) - 60) * 2)) / 2)
   \<and> \<bar>calculate_fitness_score self [8000, 9500, 8500] [70, 72, 75] - 81.0\<bar> \<le> 0.5"
proof -
  have a: "map_sum id fitness_score (calculate_performance_metrics self ms)
        = Inr ((min 100 (spec_mean (map (\<lambda>m. real_of_int (pa_steps (nm_physical_activity m))) ms)
                           / 10000 * 100)
                + max 0 (100 - (spec_mean (map (\<lambda>m. real_of_int (pa_heart_rate (nm_physical_activity m))) ms)
                                  - 60) * 2)) / 2)"
    if "ms \<noteq> []"
    using that
      calculate_fitness_score_nonempty
        [of "map (\<lambda>m. pa_steps (nm_physical_activity m)) ms"
            "map (\<lambda>m. pa_heart_rate (nm_physical_activity m)) ms" self]
    by (simp add: calculate_performance_metrics_def Let_def comp_def)
  have c: "calculate_fitness_score self [8000, 9500, 8500] [70, 72, 75] = 81"
    by (simp add: calculate_fitness_score_def np_mean_def py_min_def py_max_def)
  show ?thesis using a calculate_fitness_score_nonempty [of stps heart_rates self]
    unfolding c by simp
qed

theorem C6_fitness_score_witness:
  "calculate_fitness_score FitnessTrackingAgent [8000, 9500, 8500] [70, 72, 75] = 81
   \<and> map_sum id fitness_score
        (calculate_performance_metrics FitnessTrackingAgent
           [\<lparr>nm_date = JStr ''2024-11-20'',
              nm_physical_activity = \<lparr>pa_steps = 8000, pa_heart_rate = 70, pa_hrv = 0\<rparr>,
              nm_sleep = \<lparr>duration_hours = 7.5, quality_score = ''excellent''\<rparr>,
              nm_derived_metrics = \<lparr>activity_level = ''moderate'', heart_rate_zone = ''normal'',
                                    sleep_adequacy = ''adequate''\<rparr>\<rparr>,
            \<lparr>nm_date = JStr ''2024-11-21'',
              nm_physical_activity = \<lparr>pa_steps = 9500, pa_heart_rate = 72, pa_hrv = 0\<rparr>,
              nm_sleep = \<lparr>duration_hours = 7.2, quality_score = ''excellent''\<rparr>,
              nm_derived_metrics = \<lparr>activity_level = ''moderate'', heart_rate_zone = ''normal'',
                                    sleep_adequacy = ''adequate''\<rparr>\<rparr>,
            \<lparr>nm_date = JStr ''2024-11-22'',
              nm_physical_activity = \<lparr>pa_steps = 8500, pa_heart_rate = 75, pa_hrv = 0\<rparr>,
              nm_sleep = \<lparr>duration_hours = 6.5, quality_score = ''good''\<rparr>,
              nm_derived_metrics = \<lparr>activity_level = ''moderate'', heart_rate_zone = ''normal'',
                                    sleep_adequacy = ''borderline''\<rparr>\<rparr>]) = Inr 81"
  using C6_fitness_score_formula
      [of "[\<lparr>nm_date = JStr ''2024-11-20'',
              nm_physical_activity = \<lparr>pa_steps = 8000, pa_heart_rate = 70, pa_hrv = 0\<rparr>,
              nm_sleep = \<lparr>duration_hours = 7.5, quality_score = ''excellent''\<rparr>,
              nm_derived_metrics = \<lparr>activity_level = ''moderate'', heart_rate_zone = ''normal'',
                                    sleep_adequacy = ''adequate''\<rparr>\<rparr>,
            \<lparr>nm_date = JStr ''2024-11-21'',
              nm_physical_activity = \<lparr>pa_steps = 9500, pa_heart_rate = 72, pa_hrv = 0\<rparr>,
              nm_sleep = \<lparr>duration_hours = 7.2, quality_score = ''excellent''\<rparr>,
              nm_derived_metrics = \<lparr>activity_level = ''moderate'', heart_rate_zone = ''normal'',
                                    sleep_adequacy = ''adequate''\<rparr>\<rparr>,
            \<lparr>nm_date = JStr ''2024-11-22'',
              nm_physical_activity = \<lparr>pa_steps = 8500, pa_heart_rate = 75, pa_hrv = 0\<rparr>,
              nm_sleep = \<lparr>duration_hours = 6.5, quality_score = ''good''\<rparr>,
              nm_derived_metrics = \<lparr>activity_level = ''moderate'', heart_rate_zone = ''normal'',
                                    sleep_adequacy = ''borderline''\<rparr>\<rparr>]"
          FitnessTrackingAgent "[8000, 9500, 8500]" "[70, 72, 75]"]
  by (simp add: spec_mean_def)

text \<open>
  C7.  The sleep debt of a sequence of durations is the sum over all days of
  max(0, 7.5 - duration); a single day never contributes a negative amount; and for
  the durations [7.5, 7.2, 6.5] the debt is 0 + 0.3 + 1.0 = 1.3.
\<close>

theorem C7_sleep_debt:
  "calculate_sleep_debt SleepAnalysisAgent durations = (\<Sum>d\<leftarrow>durations. max 0 (7.5 - d))
   \<and> 0 \<le> calculate_sleep_debt SleepAnalysisAgent [d]
   \<and> calculate_sleep_debt SleepAnalysisAgent (d # durations)
       = calculate_sleep_debt SleepAnalysisAgent [d] + calculate_sleep_debt SleepAnalysisAgent durations
   \<and> calculate_sleep_debt SleepAnalysisAgent [7.5, 7.2, 6.5] = 0 + 0.3 + 1.0
   \<and> calculate_sleep_debt SleepAnalysisAgent [7.5, 7.2, 6.5] = 1.3"
  by (simp add: calculate_sleep_debt_def SleepAnalysisAgent_def Let_def)


section \<open>Properties of the insights aggregator\<close>












































text \<open>
  C10.  Given three dict reports with none of the recognized section keys (for example
  three empty dicts), the aggregator returns a success-shaped result with no error
  field: the user id of the fitness report (or "unknown"), wellness score 0.0, empty
  holistic insights, correlation analysis and priority recommendations, a trend analysis
  that holds only the overall trend "stable", and the fixed three-phase action plan.
\<close>

theorem C10_no_sections_success_shaped:
  assumes "map_of fd ''performance_metrics'' = None" "map_of fd ''trends'' = None"
    and "map_of sd ''sleep_patterns'' = None" "map_of sd ''sleep_quality_metrics'' = None"
    and "map_of md ''summary'' = None" "map_of md ''sentiment_trends'' = None"
  shows "aggregate_insights self now later (JDict fd) (JDict sd) (JDict md) =
     \<lparr> ai_user_id = (case map_of fd ''user_id'' of None \<Rightarrow> JStr ''unknown'' | Some u \<Rightarrow> u),
       ai_analysis_date = now, ai_error = None,
       holistic_insights = [], correlation_analysis = [], priority_recommendations = [],
       wellness_score = 0.0, trend_analysis = [(''overall'', JStr ''stable'')],
       action_plan =
         [ \<lparr> week = JNum 1, focus = ''Foundation'',
             actions = [''Establish consistent sleep schedule (same bedtime and wake time)'',
                        ''Start with 10-minute daily walks'',
                        ''Practice 5 minutes of daily gratitude journaling''] \<rparr>,
           \<lparr> week = JStr ''2-4'', focus = ''Building Habits'',
             actions = [''Increase daily steps to 7,000-8,000'',
                        ''Implement sleep hygiene practices'',
                        ''Add 10 minutes of mindfulness or meditation''] \<rparr>,
           \<lparr> week = JStr ''2+ months'', focus = ''Optimization'',
             actions = [''Aim for 10,000 daily steps'',
                        ''Maintain 7-9 hours of quality sleep'',
                        ''Develop stress management techniques''] \<rparr> ] \<rparr>
   \<and> action_plan (aggregate_insights self now later (JDict fd) (JDict sd) (JDict md))
       = generate_action_plan self (JDict fd) (JDict sd) (JDict md)
   \<and> map week (generate_action_plan self (JDict fd) (JDict sd) (JDict md))
       = [JNum 1, JStr ''2-4'', JStr ''2+ months'']
   \<and> map focus (generate_action_plan self (JDict fd) (JDict sd) (JDict md))
       = [''Foundation'', ''Building Habits'', ''Optimization'']"
proof -
  have h: "generate_holistic_insights self (JDict fd) (JDict sd) (JDict md) = Inr []"
    using assms
    by (simp add: generate_holistic_insights_def holistic_fitness_sleep_def
        holistic_mood_fitness_def holistic_sleep_mood_def py_and_def bind_def)
  have c: "analyze_correlations self (JDict fd) (JDict sd) (JDict md) = Inr []"
    using assms
    by (simp add: analyze_correlations_def correlation_fitness_sleep_def
        correlation_mood_fitness_def py_and_def bind_def)
  have r: "generate_priority_recommendations self (JDict fd) (JDict sd) (JDict md) = Inr []"
    using assms
    by (simp add: generate_priority_recommendations_def recommend_sleep_def
        recommend_mental_health_def recommend_fitness_def recommend_maintenance_def
        py_and_def bind_def)
  have w: "calculate_wellness_score self (JDict fd) (JDict sd) (JDict md) = Inr 0"
    using assms
    by (simp add: calculate_wellness_score_def fitness_component_def sleep_component_def
        mood_component_def bind_def)
  have t: "analyze_trends self (JDict fd) (JDict sd) (JDict md) = Inr [(''overall'', JStr ''stable'')]"
    using assms
    by (simp add: analyze_trends_def trend_of_def bind_def)
  show ?thesis
    by (simp add: aggregate_insights_def aggregate_body_def h c r w t bind_def
          generate_action_plan_def)
qed

theorem C10_three_empty_dicts_witness:
  "aggregate_insights InsightsAggregator ''2024-11-22T08:00:00'' ''2024-11-22T08:00:01''
      (JDict []) (JDict []) (JDict []) =
     \<lparr> ai_user_id = JStr ''unknown'', ai_analysis_date = ''2024-11-22T08:00:00'',
       ai_error = None,
       holistic_insights = [], correlation_analysis = [], priority_recommendations = [],
       wellness_score = 0.0, trend_analysis = [(''overall'', JStr ''stable'')],
       action_plan =
         [ \<lparr> week = JNum 1, focus = ''Foundation'',
             actions = [''Establish consistent sleep schedule (same bedtime and wake time)'',
                        ''Start with 10-minute daily walks'',
                        ''Practice 5 minutes of daily gratitude journaling''] \<rparr>,
           \<lparr> week = JStr ''2-4'', focus = ''Building Habits'',
             actions = [''Increase daily steps to 7,000-8,000'',
                        ''Implement sleep hygiene practices'',
                        ''Add 10 minutes of mindfulness or meditation''] \<rparr>,
           \<lparr> week = JStr ''2+ months'', focus = ''Optimization'',
             actions = [''Aim for 10,000 daily steps'',
                        ''Maintain 7-9 hours of quality sleep'',
                        ''Develop stress management techniques''] \<rparr> ] \<rparr>"
  using C10_no_sections_success_shaped
    [of "[]" "[]" "[]" InsightsAggregator "''2024-11-22T08:00:00''" "''2024-11-22T08:00:01''"]
  by simp

end
